theory Spec2Isabelle
  imports Main
begin

section \<open>Values thrown and rejected\<close>

text \<open>
  A JavaScript \<^verbatim>\<open>throw\<close> or promise rejection carries an arbitrary value. The code
  under study meets two kinds: \<^verbatim>\<open>Error\<close> objects, which have a \<^verbatim>\<open>name\<close> and a
  \<^verbatim>\<open>message\<close>, and bare strings (\<^verbatim>\<open>waitFor\<close> rejects with the string it was given).
\<close>

datatype thrown = ErrorObj string string | StrVal string

text \<open>\<^verbatim>\<open>err.message\<close>: the message of an \<^verbatim>\<open>Error\<close>, \<^verbatim>\<open>undefined\<close> on a string.\<close>

fun message :: "thrown \<Rightarrow> string option" where
  "message (ErrorObj n m) = Some m"
| "message (StrVal s) = None"

section \<open>utils/misc: once\<close>

text \<open>
  \<^verbatim>\<open>
  const once = (fn, context) => {
    let expired = false;
    let result;
    return (...args) => {
      if (!expired) result = context ? fn.apply(context, args) : fn(...args);
      expired = true;
      return result;
    };
  };
  \<close>
  The closure variables are a record; \<^verbatim>\<open>result\<close> starts \<^verbatim>\<open>undefined\<close> (\<open>None\<close>).
  The wrapped function may read and change the rest of the program's state \<open>'w\<close>,
  may throw, and may call the wrapper it is wrapped in: it is handed the wrapper,
  \<^verbatim>\<open>this\<close> (\<open>Some context\<close> when a truthy context was given) and the arguments.
  The closure variables are passed along with \<open>'w\<close> so that the function can hand
  them to the wrapper; the code gives it no other way to reach them. A throw inside
  \<^verbatim>\<open>fn\<close> leaves the arrow function at once, so neither assignment happens.
\<close>

record 'r once_vars =
  expired :: bool
  result :: "'r option"

type_synonym ('a, 'w, 'r) wrapper =
  "'a \<Rightarrow> 'r once_vars \<times> 'w \<Rightarrow> (thrown + 'r option) \<times> ('r once_vars \<times> 'w)"

type_synonym ('c, 'a, 'w, 'r) js_fn =
  "('a, 'w, 'r) wrapper \<Rightarrow> 'c option \<Rightarrow> 'a \<Rightarrow> 'r once_vars \<times> 'w
     \<Rightarrow> (thrown + 'r) \<times> ('r once_vars \<times> 'w)"

text \<open>The variables of the wrapper that \<^verbatim>\<open>once(fn, context)\<close> has just made.\<close>

definition once :: "'r once_vars" where
  "once = \<lparr>expired = False, result = None\<rparr>"

text \<open>What the engine throws when calls are nested deeper than the stack allows.\<close>

definition stack_overflow :: thrown where
  "stack_overflow = ErrorObj ''RangeError'' ''Maximum call stack size exceeded''"

text \<open>
  One call of the wrapper, with the number of nested calls the stack still allows.
  The wrapper that \<^verbatim>\<open>fn\<close> can call is the same wrapper, one level deeper.
\<close>

primrec once_call ::
  "nat \<Rightarrow> ('c, 'a, 'w, 'r) js_fn \<Rightarrow> 'c option \<Rightarrow> ('a, 'w, 'r) wrapper" where
  "once_call 0 fn context args s = (Inl stack_overflow, s)"
| "once_call (Suc depth) fn context args s =
     (if \<not> expired (fst s) then
        (case fn (once_call depth fn context) context args s of
           (Inl e, s') \<Rightarrow> (Inl e, s')
         | (Inr r, s') \<Rightarrow>
             (Inr (Some r), ((fst s')\<lparr>result := Some r, expired := True\<rparr>, snd s')))
      else (Inr (result (fst s)), ((fst s)\<lparr>expired := True\<rparr>, snd s)))"

text \<open>A sequence of calls of one wrapper, each with its own arguments.\<close>

fun once_calls ::
  "nat \<Rightarrow> ('c, 'a, 'w, 'r) js_fn \<Rightarrow> 'c option \<Rightarrow> 'a list \<Rightarrow> 'r once_vars \<times> 'w
     \<Rightarrow> (thrown + 'r option) list \<times> ('r once_vars \<times> 'w)" where
  "once_calls depth fn context [] s = ([], s)"
| "once_calls depth fn context (a # as) s =
     (case once_call depth fn context a s of
        (r, s') \<Rightarrow> (case once_calls depth fn context as s' of (rs, s'') \<Rightarrow> (r # rs, s'')))"

text \<open>
  A function that does not call the wrapper is given by what it does to the rest of
  the state. \<open>counted g\<close> behaves as \<open>g\<close> on the second component of that
  state and adds one to the first component each time it is entered.
\<close>

type_synonym ('c, 'a, 'w, 'r) plain_fn = "'c option \<Rightarrow> 'a \<Rightarrow> 'w \<Rightarrow> (thrown + 'r) \<times> 'w"

definition plain :: "('c, 'a, 'w, 'r) plain_fn \<Rightarrow> ('c, 'a, 'w, 'r) js_fn" where
  "plain g wrapper context args s =
     (case g context args (snd s) of (r, w') \<Rightarrow> (r, (fst s, w')))"

definition counted :: "('c, 'a, 'w, 'r) plain_fn \<Rightarrow> ('c, 'a, nat \<times> 'w, 'r) plain_fn" where
  "counted g context args s =
     (case s of (n, w) \<Rightarrow> (case g context args w of (r, w') \<Rightarrow> (r, (Suc n, w'))))"

text \<open>
  A function that always throws, one that returns its argument, and one that
  counts its entries in the state and, for an argument above zero, calls its wrapper
  with zero before it returns its argument.
\<close>

definition always_throws :: "(unit, nat, unit, nat) plain_fn" where
  "always_throws context args w = (Inl (ErrorObj ''Error'' ''boom''), w)"

definition returns_arg :: "(unit, nat, unit, nat) plain_fn" where
  "returns_arg context args w = (Inr args, w)"

definition calls_wrapper :: "(unit, nat, nat, nat) js_fn" where
  "calls_wrapper wrapper context args s =
     (let s1 = (fst s, Suc (snd s)) in
      if args = 0 then (Inr 0, s1)
      else (case wrapper 0 s1 of
              (Inl e, s2) \<Rightarrow> (Inl e, s2)
            | (Inr r, s2) \<Rightarrow> (Inr args, s2)))"

section \<open>utils/misc: objToSerializedEntries and serializedEntriesToObj\<close>

text \<open>
  \<^verbatim>\<open>
  const objToSerializedEntries = (obj) => Object.entries(obj).map((entr) => entr.join("="));
  const serializedEntriesToObj = (serializedEntries) =>
    Object.fromEntries(serializedEntries.map((n) => n.split("=")));
  \<close>
  A flat object is the list of its own enumerable properties in the order
  \<^verbatim>\<open>Object.entries\<close> lists them: keys are strings and distinct, values are primitives.
  Numbers are the integers whose \<^verbatim>\<open>ToString\<close> is the decimal numeral.
\<close>

datatype jsval = JStr string | JNum int | JBool bool | JNull | JUndefined

type_synonym jsobj = "(string \<times> jsval) list"

fun digits :: "nat \<Rightarrow> string" where
  "digits n =
     (if n < 10 then [''0123456789'' ! n] else digits (n div 10) @ [''0123456789'' ! (n mod 10)])"

declare digits.simps [simp del]

text \<open>
  What \<^verbatim>\<open>Array.prototype.join\<close> makes of an element: \<^verbatim>\<open>null\<close> and \<^verbatim>\<open>undefined\<close>
  become the empty string, every other value its \<^verbatim>\<open>ToString\<close>.
\<close>

fun join_elem :: "jsval \<Rightarrow> string" where
  "join_elem (JStr s) = s"
| "join_elem (JNum i) = (if i < 0 then CHR ''-'' # digits (nat (- i)) else digits (nat i))"
| "join_elem (JBool b) = (if b then ''true'' else ''false'')"
| "join_elem JNull = []"
| "join_elem JUndefined = []"

fun join :: "string \<Rightarrow> jsval list \<Rightarrow> string" where
  "join sep [] = []"
| "join sep [x] = join_elem x"
| "join sep (x # y # ys) = join_elem x @ sep @ join sep (y # ys)"

text \<open>
  \<^verbatim>\<open>str.split(c)\<close> for a one-character separator: the pieces between the occurrences
  of \<open>c\<close>, one piece more than there are occurrences.
\<close>

fun split :: "char \<Rightarrow> string \<Rightarrow> string list" where
  "split c [] = [[]]"
| "split c (x # xs) =
     (if x = c then [] # split c xs
      else (case split c xs of [] \<Rightarrow> [[x]] | p # ps \<Rightarrow> (x # p) # ps))"

text \<open>
  \<^verbatim>\<open>obj[key] = value\<close> on the entry list: an existing property keeps its place and
  takes the new value, a new one goes to the end.
\<close>

fun set_prop :: "string \<Rightarrow> jsval \<Rightarrow> jsobj \<Rightarrow> jsobj" where
  "set_prop k v [] = [(k, v)]"
| "set_prop k v ((k', v') # kvs) =
     (if k' = k then (k, v) # kvs else (k', v') # set_prop k v kvs)"

text \<open>
  \<^verbatim>\<open>Object.fromEntries\<close> reads elements 0 and 1 of each entry; a missing element is
  \<^verbatim>\<open>undefined\<close> (as a key, the string \<^verbatim>\<open>"undefined"\<close>), further elements are ignored.
\<close>

fun entry_of :: "string list \<Rightarrow> string \<times> jsval" where
  "entry_of [] = (''undefined'', JUndefined)"
| "entry_of [k] = (k, JUndefined)"
| "entry_of (k # v # rest) = (k, JStr v)"

fun fromEntries :: "string list list \<Rightarrow> jsobj \<Rightarrow> jsobj" where
  "fromEntries [] obj = obj"
| "fromEntries (e # es) obj = (case entry_of e of (k, v) \<Rightarrow> fromEntries es (set_prop k v obj))"

definition objToSerializedEntries :: "jsobj \<Rightarrow> string list" where
  "objToSerializedEntries obj = map (\<lambda>(k, v). join ''='' [JStr k, v]) obj"

definition serializedEntriesToObj :: "string list \<Rightarrow> jsobj" where
  "serializedEntriesToObj serializedEntries =
     fromEntries (map (split CHR ''='') serializedEntries) []"

text \<open>The claim's condition: no key and no string value contains \<^verbatim>\<open>=\<close>.\<close>

fun eq_free_val :: "jsval \<Rightarrow> bool" where
  "eq_free_val (JStr s) = (CHR ''='' \<notin> set s)"
| "eq_free_val v = True"

definition eq_free :: "jsobj \<Rightarrow> bool" where
  "eq_free obj = list_all (\<lambda>(k, v). CHR ''='' \<notin> set k \<and> eq_free_val v) obj"

fun is_str :: "jsval \<Rightarrow> bool" where
  "is_str (JStr s) = True"
| "is_str v = False"

definition all_strings :: "jsobj \<Rightarrow> bool" where
  "all_strings obj = list_all (\<lambda>(k, v). is_str v) obj"

section \<open>utils/misc: waitFor\<close>

text \<open>
  A promise is described by how it settles: resolved with a value or rejected with a
  reason, at a time in milliseconds counted from its creation, or never. Two events
  that fall in the same millisecond happen in the order in which the source registers
  them; in \<^verbatim>\<open>Promise.race([primaryPromise, fallbackPromise])\<close> the primary promise is
  first.
\<close>

datatype 'a promise = Resolves nat 'a | Rejects nat thrown | Never

fun settle_time :: "'a promise \<Rightarrow> nat option" where
  "settle_time (Resolves t v) = Some t"
| "settle_time (Rejects t e) = Some t"
| "settle_time Never = None"

fun delay :: "nat \<Rightarrow> 'a promise \<Rightarrow> 'a promise" where
  "delay d (Resolves t v) = Resolves (d + t) v"
| "delay d (Rejects t e) = Rejects (d + t) e"
| "delay d Never = Never"

fun resolved_by :: "'a promise \<Rightarrow> nat \<Rightarrow> bool" where
  "resolved_by (Resolves t v) T = (t \<le> T)"
| "resolved_by (Rejects t e) T = False"
| "resolved_by Never T = False"

fun settled_by :: "'a promise \<Rightarrow> nat \<Rightarrow> bool" where
  "settled_by (Resolves t v) T = (t \<le> T)"
| "settled_by (Rejects t e) T = (t \<le> T)"
| "settled_by Never T = False"

text \<open>\<^verbatim>\<open>Promise.race([p, q])\<close> settles as the first of the two to settle.\<close>

definition race :: "'a promise \<Rightarrow> 'a promise \<Rightarrow> 'a promise" where
  "race p q =
     (case settle_time p of
        None \<Rightarrow> q
      | Some t \<Rightarrow> (case settle_time q of None \<Rightarrow> p | Some u \<Rightarrow> if t \<le> u then p else q))"

text \<open>
  \<^verbatim>\<open>
  const waitFor = async (primaryPromise, timeAllowance, fallbackActionOrErr) => {
    const fallbackPromise = new Promise((res, rej) => {
      const action =
        typeof fallbackActionOrErr != "function"
          ? () => rej(fallbackActionOrErr)
          : async () => {
              try { const result = await fallbackActionOrErr(); res(result); }
              catch (err) { rej(err); }
            };
      if (typeof timeAllowance === "number") {
        const timeout = setTimeout(action, timeAllowance);
        primaryPromise.then(() => clearTimeout(timeout));
      } else {
        let resolved = false;
        primaryPromise.finally(() => (resolved = true));
        timeAllowance.finally(() => !resolved && action());
      }
    });
    return Promise.race([primaryPromise, fallbackPromise]);
  };
  \<close>
  The time allowance is a number of milliseconds or a promise, given by the time at
  which it settles. The fallback is a value to reject with, or a function, given by
  the promise its call returns.
\<close>

datatype allowance = Millis nat | Until "nat option"

datatype 'a fallback = FallbackErr thrown | FallbackAction "'a promise"

text \<open>
  The time at which \<^verbatim>\<open>action\<close> runs, if it does. The timer is cleared only when the
  primary promise is fulfilled (\<^verbatim>\<open>then\<close>); with a promise as allowance the action is
  skipped when the primary promise has settled either way (\<^verbatim>\<open>finally\<close>).
\<close>

definition action_time :: "'a promise \<Rightarrow> allowance \<Rightarrow> nat option" where
  "action_time primaryPromise timeAllowance =
     (case timeAllowance of
        Millis T \<Rightarrow> if resolved_by primaryPromise T then None else Some T
      | Until None \<Rightarrow> None
      | Until (Some T) \<Rightarrow> if settled_by primaryPromise T then None else Some T)"

definition fallbackPromise :: "'a promise \<Rightarrow> allowance \<Rightarrow> 'a fallback \<Rightarrow> 'a promise" where
  "fallbackPromise primaryPromise timeAllowance fallbackActionOrErr =
     (case action_time primaryPromise timeAllowance of
        None \<Rightarrow> Never
      | Some T \<Rightarrow>
          (case fallbackActionOrErr of
             FallbackErr e \<Rightarrow> Rejects T e
           | FallbackAction q \<Rightarrow> delay T q))"

definition waitFor :: "'a promise \<Rightarrow> allowance \<Rightarrow> 'a fallback \<Rightarrow> 'a promise" where
  "waitFor primaryPromise timeAllowance fallbackActionOrErr =
     race primaryPromise (fallbackPromise primaryPromise timeAllowance fallbackActionOrErr)"

section \<open>Device: state\<close>

text \<open>
  The fields of a \<^verbatim>\<open>Device\<close> that its connection methods read and write.
  \<^verbatim>\<open>__connectingPromise\<close> holds a promise or \<^verbatim>\<open>null\<close>; promises are told apart by
  the number under which they were created.
\<close>

datatype protocol = Serial | Telnet

record device =
  protocol :: protocol
  address :: string
  name :: string
  connected :: bool
  connecting :: bool
  online :: bool
  lostConnection :: bool
  info :: "string option"
  connectingPromise :: "nat option"

text \<open>
  What a method does to the outside: calls of the adapter, of the stores and of the
  editor's window, and log lines, in the order in which they are made.
  \<open>CallConnect\<close> marks each entry into \<^verbatim>\<open>connect()\<close>.
\<close>

datatype effect =
    CallConnect
  | ConnectSerial string
  | Disconnect
  | GetBoardInfo
  | SetToLastUsedOrFirstFound
  | Changed
  | RefreshDevices
  | RefreshProjects
  | LogInfo string
  | LogDebug string
  | LogError "string list"
  | ShowErrorMessage string

text \<open>The record kept in the workspace state under the device's key.\<close>

record saved =
  saved_connected :: bool
  saved_name :: string

record world =
  dev :: device
  promises :: nat
  workspaceState :: "saved option"
  trace :: "effect list"

definition emit :: "effect \<Rightarrow> world \<Rightarrow> world" where
  "emit e w = w\<lparr>trace := trace w @ [e]\<rparr>"

definition upd :: "(device \<Rightarrow> device) \<Rightarrow> world \<Rightarrow> world" where
  "upd f w = w\<lparr>dev := f (dev w)\<rparr>"

section \<open>Device: persisted state and change notification\<close>

text \<open>
  \<^verbatim>\<open>
  handleState(action) {
    const key = `pymakr.devices.${this.id}.state`;
    const { workspaceState } = this.pymakr.context;
    if (action === "save") {
      const currentState = cherryPick(this, ["connected", "name"]);
      workspaceState.update(key, currentState);
    }
    const state = workspaceState.get(key);
    this.log.debugShort("handleState", action, state);
    return state || {};
  }
  \<close>
  The result \<open>None\<close> stands for the empty object returned when nothing is stored.
\<close>

definition handleState :: "string \<Rightarrow> world \<Rightarrow> saved option \<times> world" where
  "handleState action w =
     (let w1 = (if action = ''save''
                then w\<lparr>workspaceState :=
                        Some \<lparr>saved_connected = connected (dev w), saved_name = name (dev w)\<rparr>\<rparr>
                else w)
      in (workspaceState w1, emit (LogDebug ''handleState'') w1))"

definition saveState :: "world \<Rightarrow> saved option \<times> world" where
  "saveState w = handleState ''save'' w"

definition loadState :: "world \<Rightarrow> saved option \<times> world" where
  "loadState w = handleState ''load'' w"

text \<open>
  \<^verbatim>\<open>
  onChanged() {
    this.saveState();
    this.pymakr.devicesProvider.refresh();
    this.pymakr.projectsProvider.refresh();
  }
  \<close>
\<close>

definition onChanged :: "world \<Rightarrow> world" where
  "onChanged w = emit RefreshProjects (emit RefreshDevices (snd (saveState w)))"

text \<open>
  Modelled from the spec: the store of \<^verbatim>\<open>utils/store\<close>, which is not among the
  sources. The constructor has
  \<^verbatim>\<open>const { subscribe, set } = writable(this); this.changed = () => set(this);\<close> and
  \<^verbatim>\<open>subscribe(() => this.onChanged())\<close>; by the spec, \<^verbatim>\<open>set\<close> calls every
  subscriber at once, in the order of subscription. \<open>Changed\<close> stands for the
  call of \<^verbatim>\<open>set\<close> as the other subscribers see it; \<open>onChanged\<close> is the
  device's own subscriber.
\<close>

definition changed :: "world \<Rightarrow> world" where
  "changed w = onChanged (emit Changed w)"

section \<open>Device: connect\<close>

text \<open>
  \<^verbatim>\<open>
  async connect() {
    if (!this.connecting) {
      this.connecting = true;
      this.__connectingPromise = new Promise(async (resolve, reject) => {
        if (this.protocol === "serial") {
          try {
            this.log.info("connecting...");
            const connectPromise = this.adapter.connectSerial(this.address);
            await waitFor(connectPromise, 2000, "Timed out while connecting.");
            this.connected = true;
            this.lostConnection = false;
            this.changed();
            this.log.info("connected.");
            this.info = await waitFor(this.adapter.getBoardInfo(), 10000,
                                      "timed out while getting board info");
            this.log.debug("boardInfo", this.info);
            await this.pymakr.activeDeviceStore.setToLastUsedOrFirstFound();
            resolve();
          } catch (err) {
            const error = [`Failed to connect to ${this.address}.`, err.message, this.adapter];
            vscode.window.showErrorMessage(
              [error[0], err.message, "Please see developer logs for more info."].join(" - "));
            this.log.error(...error);
            reject(err);
          }
        }
      });
      this.connecting = false;
    }
    return this.__connectingPromise;
  }
  \<close>
  The executor of \<^verbatim>\<open>new Promise\<close> runs at once, up to its first \<^verbatim>\<open>await\<close>; then the
  constructor returns and the method goes on. \<open>connect_start\<close> is the method up to its
  \<^verbatim>\<open>return\<close>: it gives the promise the caller will see settle. \<open>connect_settle\<close> is
  the rest of the executor, run when the adapter answers or the timer fires.
\<close>

definition connect_start :: "world \<Rightarrow> world \<times> nat option" where
  "connect_start w0 =
     (let w = emit CallConnect w0 in
      if \<not> connecting (dev w) then
        let w1 = upd (\<lambda>d. d\<lparr>connecting := True\<rparr>) w;
            n = promises w1;
            w2 = w1\<lparr>promises := Suc n\<rparr>;
            w3 = (if protocol (dev w2) = Serial
                  then emit (ConnectSerial (address (dev w2))) (emit (LogInfo ''connecting...'') w2)
                  else w2);
            w4 = upd (\<lambda>d. d\<lparr>connectingPromise := Some n\<rparr>) w3;
            w5 = upd (\<lambda>d. d\<lparr>connecting := False\<rparr>) w4
        in (w5, Some n)
      else (w, connectingPromise (dev w)))"

text \<open>How the adapter and the active-device store answer during one attempt.\<close>

record answers =
  connectSerial_p :: "unit promise"
  getBoardInfo_p :: "string promise"
  setToLastUsedOrFirstFound_p :: "unit promise"

text \<open>\<^verbatim>\<open>[a, b, c].join(" - ")\<close> with \<^verbatim>\<open>undefined\<close> joined as the empty string.\<close>

definition connect_error_text :: "string \<Rightarrow> thrown \<Rightarrow> string" where
  "connect_error_text addr err =
     ''Failed to connect to '' @ addr @ ''.'' @ '' - '' @
     (case message err of None \<Rightarrow> [] | Some m \<Rightarrow> m) @ '' - '' @
     ''Please see developer logs for more info.''"

text \<open>The \<^verbatim>\<open>catch\<close> block.\<close>

definition connect_catch :: "thrown \<Rightarrow> world \<Rightarrow> world" where
  "connect_catch err w =
     emit (LogError [''Failed to connect to '' @ address (dev w) @ ''.'',
                     (case message err of None \<Rightarrow> ''undefined'' | Some m \<Rightarrow> m)])
       (emit (ShowErrorMessage (connect_error_text (address (dev w)) err)) w)"

definition connect_settle :: "answers \<Rightarrow> world \<Rightarrow> world \<times> unit promise" where
  "connect_settle a w =
     (if protocol (dev w) \<noteq> Serial then (w, Never)
      else
        case waitFor (connectSerial_p a) (Millis 2000)
               (FallbackErr (StrVal ''Timed out while connecting.'')) of
          Never \<Rightarrow> (w, Never)
        | Rejects t err \<Rightarrow> (connect_catch err w, Rejects t err)
        | Resolves t u \<Rightarrow>
            let w1 = upd (\<lambda>d. d\<lparr>connected := True\<rparr>) w;
                w2 = upd (\<lambda>d. d\<lparr>lostConnection := False\<rparr>) w1;
                w3 = changed w2;
                w4 = emit (LogInfo ''connected.'') w3;
                w5 = emit GetBoardInfo w4
            in
              case waitFor (getBoardInfo_p a) (Millis 10000)
                     (FallbackErr (StrVal ''timed out while getting board info'')) of
                Never \<Rightarrow> (w5, Never)
              | Rejects t' err \<Rightarrow> (connect_catch err w5, Rejects (t + t') err)
              | Resolves t' i \<Rightarrow>
                  let w6 = upd (\<lambda>d. d\<lparr>info := Some i\<rparr>) w5;
                      w7 = emit (LogDebug ''boardInfo'') w6;
                      w8 = emit SetToLastUsedOrFirstFound w7
                  in
                    case setToLastUsedOrFirstFound_p a of
                      Never \<Rightarrow> (w8, Never)
                    | Rejects t'' err \<Rightarrow> (connect_catch err w8, Rejects (t + t' + t'') err)
                    | Resolves t'' u' \<Rightarrow> (w8, Resolves (t + t' + t'') ()))"

text \<open>
  One call of \<^verbatim>\<open>connect()\<close> that starts an attempt, followed until that attempt has
  settled, with nothing else happening to the device in between. A call that finds
  \<^verbatim>\<open>connecting\<close> set starts no attempt.
\<close>

definition connect :: "answers \<Rightarrow> world \<Rightarrow> (world \<times> unit promise) option" where
  "connect a w =
     (if connecting (dev w) then None
      else Some (connect_settle a (fst (connect_start w))))"

section \<open>Device: disconnect\<close>

text \<open>
  \<^verbatim>\<open>
  async disconnect() {
    const connectPromise = this.adapter.disconnect();
    await waitFor(connectPromise, 2000, "Timed out while disconnecting.");
    this.connected = false;
    this.lostConnection = false;
    this.changed();
  }
  \<close>
  A rejected \<^verbatim>\<open>await\<close> throws, and the method has no handler: the three statements
  after it are skipped and the method's promise is rejected with the same reason.
\<close>

definition disconnect :: "unit promise \<Rightarrow> world \<Rightarrow> world \<times> unit promise" where
  "disconnect connectPromise w0 =
     (let w = emit Disconnect w0 in
      case waitFor connectPromise (Millis 2000)
             (FallbackErr (StrVal ''Timed out while disconnecting.'')) of
        Never \<Rightarrow> (w, Never)
      | Rejects t err \<Rightarrow> (w, Rejects t err)
      | Resolves t u \<Rightarrow>
          let w1 = upd (\<lambda>d. d\<lparr>connected := False\<rparr>) w;
              w2 = upd (\<lambda>d. d\<lparr>lostConnection := False\<rparr>) w1
          in (changed w2, Resolves t ()))"

section \<open>Device: updateConnection\<close>

text \<open>The truth value of \<^verbatim>\<open>.connected\<close> on what \<^verbatim>\<open>loadState()\<close> returned.\<close>

definition state_connected :: "saved option \<Rightarrow> bool" where
  "state_connected st = (case st of None \<Rightarrow> False | Some s \<Rightarrow> saved_connected s)"

text \<open>
  The \<^verbatim>\<open>autoConnect\<close> setting of the device and that of the extension; \<open>None\<close> is
  \<^verbatim>\<open>undefined\<close>. \<^verbatim>\<open>a || b\<close> is \<open>a\<close> when \<open>a\<close> is truthy: a non-empty string.
\<close>

record settings =
  device_autoConnect :: "string option"
  global_autoConnect :: "string option"

definition js_or :: "string option \<Rightarrow> string option \<Rightarrow> string option" where
  "js_or a b = (case a of None \<Rightarrow> b | Some s \<Rightarrow> if s = [] then b else a)"

text \<open>
  \<^verbatim>\<open>
  async updateConnection() {
    if (this.online && !this.connected) {
      const autoConnect = this.config.get().autoConnect
                          || this.pymakr.config.get().get("autoConnect");
      const shouldConnect = autoConnect === "always";
      const shouldResume = autoConnect === "lastState" && this.loadState().connected;
      const shouldReconnect = autoConnect === "onLostConnection" && this.lostConnection;
      if (shouldConnect || shouldResume || shouldReconnect) await this.connect();
    } else {
      this.lostConnection = this.lostConnection || this.connected;
      this.connected = false;
      this.changed();
    }
  }
  \<close>
  The method up to the point where it waits for \<^verbatim>\<open>connect()\<close>; the result names the
  promise it waits for, if it called \<^verbatim>\<open>connect()\<close>.
\<close>

definition updateConnection :: "settings \<Rightarrow> world \<Rightarrow> world \<times> nat option" where
  "updateConnection cfg w =
     (if online (dev w) \<and> \<not> connected (dev w) then
        let autoConnect = js_or (device_autoConnect cfg) (global_autoConnect cfg);
            shouldConnect = (autoConnect = Some ''always'');
            resume = (if autoConnect = Some ''lastState''
                      then (case loadState w of (st, w') \<Rightarrow> (state_connected st, w'))
                      else (False, w));
            shouldResume = fst resume;
            w1 = snd resume;
            shouldReconnect = (autoConnect = Some ''onLostConnection'' \<and> lostConnection (dev w1))
        in if shouldConnect \<or> shouldResume \<or> shouldReconnect then connect_start w1
           else (w1, None)
      else
        let w1 = upd (\<lambda>d. d\<lparr>lostConnection := lostConnection d \<or> connected d\<rparr>) w;
            w2 = upd (\<lambda>d. d\<lparr>connected := False\<rparr>) w1
        in (changed w2, None))"

text \<open>A serial device as its constructor leaves it, and the same device seen online.\<close>

definition device0 :: device where
  "device0 = \<lparr>protocol = Serial, address = ''COM3'', name = ''board'', connected = False,
              connecting = False, online = False, lostConnection = False, info = None,
              connectingPromise = None\<rparr>"

definition world0 :: world where
  "world0 = \<lparr>dev = device0, promises = 0, workspaceState = None, trace = []\<rparr>"

definition count_effect :: "effect \<Rightarrow> world \<Rightarrow> nat" where
  "count_effect e w = length (filter (\<lambda>x. x = e) (trace w))"

text \<open>Adapters for the examples: one that never answers, and three that connect in 10 ms.\<close>

definition answers_hang :: answers where
  "answers_hang = \<lparr>connectSerial_p = Never, getBoardInfo_p = Never,
                    setToLastUsedOrFirstFound_p = Never\<rparr>"

definition answers_info_fails :: answers where
  "answers_info_fails =
     \<lparr>connectSerial_p = Resolves 10 (),
      getBoardInfo_p = Rejects 5 (ErrorObj ''Error'' ''no reply''),
      setToLastUsedOrFirstFound_p = Resolves 0 ()\<rparr>"

definition answers_info_hangs :: answers where
  "answers_info_hangs =
     \<lparr>connectSerial_p = Resolves 10 (), getBoardInfo_p = Never,
      setToLastUsedOrFirstFound_p = Resolves 0 ()\<rparr>"

definition answers_ok :: answers where
  "answers_ok =
     \<lparr>connectSerial_p = Resolves 10 (), getBoardInfo_p = Resolves 5 ''esp32'',
      setToLastUsedOrFirstFound_p = Resolves 0 ()\<rparr>"

text \<open>
  The same device connected; after it has lost its connection; and seen online with
  a saved state and a setting.
\<close>

definition world_connected :: world where
  "world_connected = upd (\<lambda>d. d\<lparr>connected := True, online := True\<rparr>) world0"

definition world_lost :: world where
  "world_lost = upd (\<lambda>d. d\<lparr>online := True, lostConnection := True\<rparr>) world0"

definition world_online :: "bool \<Rightarrow> world" where
  "world_online was_connected =
     upd (\<lambda>d. d\<lparr>online := True\<rparr>)
       (world0\<lparr>workspaceState :=
                 Some \<lparr>saved_connected = was_connected, saved_name = ''board''\<rparr>\<rparr>)"

definition settings_lastState :: settings where
  "settings_lastState = \<lparr>device_autoConnect = None, global_autoConnect = Some ''lastState''\<rparr>"

section \<open>Device: upload\<close>

text \<open>
  The result of waiting for a call of the adapter: it is fulfilled, it is rejected,
  or it never settles (the upload methods set no time allowance).
\<close>

datatype 'a outcome = Done 'a | Failed thrown | Hangs

text \<open>
  The adapter calls an upload makes. What the board answers to a call may depend on
  the calls made before it. \<^verbatim>\<open>dirname\<close> is the function of that name of the \<^verbatim>\<open>path\<close>
  module.
\<close>

datatype call = Mkdir string | PutFile string string

record host =
  dirname :: "string \<Rightarrow> string"
  adapter :: "call list \<Rightarrow> call \<Rightarrow> unit outcome"

text \<open>
  The local files below the source path: a file with its contents, a directory with
  its entries in the order \<^verbatim>\<open>readdirSync\<close> lists them, and the three ways in which
  \<^verbatim>\<open>statSync\<close>, \<^verbatim>\<open>readdirSync\<close> and \<^verbatim>\<open>readFileSync\<close> throw.
\<close>

datatype fsnode =
    File string
  | Dir "(string \<times> fsnode) list"
  | StatThrows thrown
  | ReaddirThrows thrown
  | ReadFileThrows thrown

text \<open>\<^verbatim>\<open>str.replace(/\/+/g, "/")\<close>: every run of slashes becomes one slash.\<close>

fun collapse_slashes :: "string \<Rightarrow> string" where
  "collapse_slashes [] = []"
| "collapse_slashes [c] = [c]"
| "collapse_slashes (c # d # cs) =
     (if c = CHR ''/'' \<and> d = CHR ''/'' then collapse_slashes (d # cs)
      else c # collapse_slashes (d # cs))"

definition flash_path :: "string \<Rightarrow> string" where
  "flash_path destination = collapse_slashes (''/flash/'' @ destination)"

text \<open>
  \<^verbatim>\<open>err.message.match("OSError: \\[Errno 17\\] EEXIST")\<close>: the string becomes a regular
  expression in which the two brackets are escaped, so it matches when the text
  \<^verbatim>\<open>OSError: [Errno 17] EEXIST\<close> occurs somewhere in the message.
\<close>

fun starts_with :: "string \<Rightarrow> string \<Rightarrow> bool" where
  "starts_with [] s = True"
| "starts_with (p # ps) [] = False"
| "starts_with (p # ps) (c # cs) = (p = c \<and> starts_with ps cs)"

fun contains :: "string \<Rightarrow> string \<Rightarrow> bool" where
  "contains p [] = (p = [])"
| "contains p (c # cs) = (starts_with p (c # cs) \<or> contains p cs)"

definition eexist :: string where
  "eexist = ''OSError: [Errno 17] EEXIST''"

text \<open>What reading \<^verbatim>\<open>.match\<close> of \<^verbatim>\<open>undefined\<close> throws.\<close>

definition match_of_undefined :: thrown where
  "match_of_undefined =
     ErrorObj ''TypeError'' ''Cannot read properties of undefined (reading 'match')''"

text \<open>
  \<^verbatim>\<open>
  async _uploadFile(file, destination) {
    const _destination = `/flash/${destination}`.replace(/\/+/g, "/");
    const destinationDir = dirname(_destination);
    this.log.traceShort("uploadFile", file, "to", _destination);
    const data = Buffer.from(readFileSync(file));
    try {
      await this.adapter.mkdir(destinationDir);
    } catch (err) {
      if (!err.message.match("OSError: \\[Errno 17\\] EEXIST")) throw err;
    }
    return this.adapter.putFile(_destination, data, { checkIfSimilarBeforeUpload: true });
  }
  \<close>
  The file is given by what \<^verbatim>\<open>readFileSync\<close> does on it. The result is the outcome
  of the method's promise and the adapter calls made so far.
\<close>

definition priv_uploadFile ::
  "host \<Rightarrow> thrown + string \<Rightarrow> string \<Rightarrow> call list \<Rightarrow> unit outcome \<times> call list" where
  "priv_uploadFile h file destination cs =
     (let destination' = flash_path destination;
          destinationDir = dirname h destination'
      in case file of
           Inl err \<Rightarrow> (Failed err, cs)
         | Inr data \<Rightarrow>
             let cs1 = cs @ [Mkdir destinationDir];
                 put = (adapter h cs1 (PutFile destination' data),
                        cs1 @ [PutFile destination' data])
             in case adapter h cs (Mkdir destinationDir) of
                  Done u \<Rightarrow> put
                | Hangs \<Rightarrow> (Hangs, cs1)
                | Failed err \<Rightarrow>
                    (case message err of
                       None \<Rightarrow> (Failed match_of_undefined, cs1)
                     | Some m \<Rightarrow> if \<not> contains eexist m then (Failed err, cs1) else put))"

text \<open>
  \<^verbatim>\<open>
  async _uploadDir(dir, destination) {
    for (const file of readdirSync(dir))
      await this._upload(`${dir}/${file}`, `${destination}/${file}`);
  }
  _upload(source, destination) {
    return statSync(source).isDirectory()
      ? this._uploadDir(source, destination)
      : this._uploadFile(source, destination);
  }
  \<close>
  The source path is followed in the tree of local files; \<open>priv_uploadDir\<close> is the
  loop over the entries that are left.
\<close>

fun priv_upload :: "host \<Rightarrow> fsnode \<Rightarrow> string \<Rightarrow> call list \<Rightarrow> unit outcome \<times> call list"
  and priv_uploadDir ::
    "host \<Rightarrow> (string \<times> fsnode) list \<Rightarrow> string \<Rightarrow> call list \<Rightarrow> unit outcome \<times> call list"
  where
  "priv_upload h (File data) destination cs = priv_uploadFile h (Inr data) destination cs"
| "priv_upload h (ReadFileThrows err) destination cs = priv_uploadFile h (Inl err) destination cs"
| "priv_upload h (Dir entries) destination cs = priv_uploadDir h entries destination cs"
| "priv_upload h (ReaddirThrows err) destination cs = (Failed err, cs)"
| "priv_upload h (StatThrows err) destination cs = (Failed err, cs)"
| "priv_uploadDir h [] destination cs = (Done (), cs)"
| "priv_uploadDir h (entry # rest) destination cs =
     (case priv_upload h (snd entry) (destination @ ''/'' @ fst entry) cs of
        (Done u, cs') \<Rightarrow> priv_uploadDir h rest destination cs'
      | (Failed err, cs') \<Rightarrow> (Failed err, cs')
      | (Hangs, cs') \<Rightarrow> (Hangs, cs'))"

text \<open>\<^verbatim>\<open>String(err)\<close>, as \<^verbatim>\<open>Array.prototype.join\<close> applies it.\<close>

fun to_string :: "thrown \<Rightarrow> string" where
  "to_string (StrVal s) = s"
| "to_string (ErrorObj n m) = (if n = [] then m else if m = [] then n else n @ '': '' @ m)"

text \<open>
  \<^verbatim>\<open>
  async upload(source, destination) {
    try {
      this.log.info("copy from", source, "to", destination);
      await vscode.window.withProgress({ location: vscode.ProgressLocation.Notification },
        async (progress) => {
          progress.report({ message: `copy to ${this.name}` });
          this.log.info("upload", source, "to", destination);
          await this._upload(source, destination);
          this.log.info("upload completed");
        });
    } catch (err) {
      const errors = ["failed to upload", source, "to", destination, "\r\nReason:", err];
      vscode.window.showErrorMessage(errors.join(" "));
      this.log.error(errors);
    }
  }
  \<close>
  \<^verbatim>\<open>withProgress\<close> settles as the task it is given. The result is the outcome of the
  method's promise, the adapter calls made, and what was logged and shown.
\<close>

definition upload_error_text :: "string \<Rightarrow> string \<Rightarrow> thrown \<Rightarrow> string" where
  "upload_error_text source destination err =
     ''failed to upload '' @ source @ '' to '' @ destination @ '' '' @
     [CHR 0x0D, CHR 0x0A] @ ''Reason: '' @ to_string err"

definition upload ::
  "host \<Rightarrow> fsnode \<Rightarrow> string \<Rightarrow> string \<Rightarrow> call list
     \<Rightarrow> unit outcome \<times> call list \<times> effect list" where
  "upload h tree source destination cs =
     (let started = [LogInfo (''copy from '' @ source @ '' to '' @ destination),
                     LogInfo (''upload '' @ source @ '' to '' @ destination)]
      in case priv_upload h tree destination cs of
           (Done u, cs') \<Rightarrow> (Done (), cs', started @ [LogInfo ''upload completed''])
         | (Failed err, cs') \<Rightarrow>
             (Done (), cs',
              started @ [ShowErrorMessage (upload_error_text source destination err),
                         LogError [''failed to upload'', source, ''to'', destination,
                                   [CHR 0x0D, CHR 0x0A] @ ''Reason:'', to_string err]])
         | (Hangs, cs') \<Rightarrow> (Hangs, cs', started))"

text \<open>
  Boards for the examples: every directory exists already; the board refuses to
  create directories. Both take files. The directory of a path is taken to be
  \<^verbatim>\<open>/flash\<close>.
\<close>

definition host_exists :: host where
  "host_exists =
     \<lparr>dirname = (\<lambda>p. ''/flash''),
      adapter = (\<lambda>cs c. case c of
                   Mkdir d \<Rightarrow> Failed (ErrorObj ''Error'' ''mkdir failed: OSError: [Errno 17] EEXIST'')
                 | PutFile p data \<Rightarrow> Done ())\<rparr>"

definition host_denied :: host where
  "host_denied =
     \<lparr>dirname = (\<lambda>p. ''/flash''),
      adapter = (\<lambda>cs c. case c of
                   Mkdir d \<Rightarrow> Failed (ErrorObj ''Error'' ''OSError: [Errno 13] EACCES'')
                 | PutFile p data \<Rightarrow> Done ())\<rparr>"

section \<open>commands: downloadProject\<close>

text \<open>
  An entry of the board's listing, with the two fields the command reads.
\<close>

record remote_entry =
  filename :: string
  isDir :: bool

text \<open>
  What the command does to the outside, in order: the listing, \<^verbatim>\<open>mkdirSync\<close> with a
  path, \<^verbatim>\<open>adapter.getFile\<close> with a file name, and \<^verbatim>\<open>writeFile\<close> with a path and the
  contents. The answers may depend on what was done before. \<^verbatim>\<open>mkdirSync\<close> returns
  or throws; \<^verbatim>\<open>writeFile\<close> returns a promise, whose time counts from the start of
  the command.
\<close>

datatype dl_event = ListFiles | MkdirSync string | GetFile string | WriteFile string string

record dl_env =
  listFiles_res :: "remote_entry list outcome"
  mkdirSync_res :: "dl_event list \<Rightarrow> string \<Rightarrow> thrown option"
  getFile_res :: "dl_event list \<Rightarrow> string \<Rightarrow> string outcome"
  writeFile_res :: "dl_event list \<Rightarrow> string \<Rightarrow> string \<Rightarrow> unit promise"

fun is_mkdir :: "dl_event \<Rightarrow> bool" where
  "is_mkdir (MkdirSync d) = True"
| "is_mkdir e = False"













text \<open>
  The \<^verbatim>\<open>for\<close> loop: each file is fetched and the loop waits for it; the write is
  started and its promise kept, and the loop goes on to the next file.
\<close>

fun fetch_files ::
  "dl_env \<Rightarrow> (remote_entry \<times> string) list \<Rightarrow> unit promise list \<Rightarrow> dl_event list
     \<Rightarrow> unit outcome \<times> dl_event list \<times> unit promise list" where
  "fetch_files env [] writePromises evs = (Done (), evs, writePromises)"
| "fetch_files env (file # files) writePromises evs =
     (let evs1 = evs @ [GetFile (filename (fst file))] in
      case getFile_res env evs (filename (fst file)) of
        Failed err \<Rightarrow> (Failed err, evs1, writePromises)
      | Hangs \<Rightarrow> (Hangs, evs1, writePromises)
      | Done contents \<Rightarrow>
          fetch_files env files
            (writePromises @ [writeFile_res env evs1 (snd file) contents])
            (evs1 @ [WriteFile (snd file) contents]))"






section \<open>Properties of once\<close>

lemma once_call_expired:
  "expired v \<Longrightarrow> once_call (Suc depth) fn c a (v, w) = (Inr (result v), (v, w))"
  by simp

lemma once_calls_expired:
  "expired v \<Longrightarrow>
   once_calls (Suc depth) fn c as (v, w) = (replicate (length as) (Inr (result v)), (v, w))"
  by (induction as) (simp_all del: once_call.simps add: once_call_expired)

lemma once_call_first:
  "g c a w = (Inr r, w') \<Longrightarrow>
   once_call (Suc depth) (plain g) c a (once, w) =
     (Inr (Some r), (\<lparr>expired = True, result = Some r\<rparr>, w'))"
  by (simp add: once_def plain_def)

lemma counted_returns:
  "g c a w = (r, w') \<Longrightarrow> counted g c a (n, w) = (r, (Suc n, w'))"
  by (simp add: counted_def)

text \<open>
  When the function does not call the wrapper and its first invocation returns
  normally with \<open>r\<close>, every call of the wrapper returns \<open>r\<close>, the function has
  been entered exactly once, and the later calls leave the state as the first one
  left it.
\<close>

lemma once_plain_fn_entered_once:
  assumes "g c a w = (Inr r, w')"
  shows "once_calls (Suc depth) (plain (counted g)) c (a # as) (once, (0, w)) =
           (replicate (Suc (length as)) (Inr (Some r)),
            (\<lparr>expired = True, result = Some r\<rparr>, (1, w')))"
proof -
  have first: "once_call (Suc depth) (plain (counted g)) c a (once, (0, w)) =
      (Inr (Some r), (\<lparr>expired = True, result = Some r\<rparr>, (Suc 0, w')))"
    using assms by (intro once_call_first counted_returns)
  show ?thesis
    by (simp del: once_call.simps add: first once_calls_expired)
qed

text \<open>
  C10 (the code at the failing input). The wrapper of a function that throws is
  called twice: after the first call the wrapper is still unexpired, and the second
  call enters the function again.
\<close>

theorem once_throwing_fn_invoked_twice:
  "once_calls 1 (plain (counted always_throws)) None [1, 2] (once, (0, ())) =
     ([Inl (ErrorObj ''Error'' ''boom''), Inl (ErrorObj ''Error'' ''boom'')], (once, (2, ())))"
  by (simp add: once_def plain_def counted_def always_throws_def)

text \<open>
  The same late assignment lets a function that calls its own wrapper be entered
  twice by one call from outside, with no throw: the inner call finds the wrapper
  unexpired. The inner call returns 0, the outer one 1, and 1 is what the wrapper
  keeps.
\<close>

lemma once_reentrant_fn_entered_twice:
  "once_call 2 calls_wrapper None 1 (once, 0) =
     (Inr (Some 1), (\<lparr>expired = True, result = Some 1\<rparr>, 2))"
  by (simp add: numeral_2_eq_2 once_def calls_wrapper_def Let_def)

section \<open>Properties of the serialisation helpers\<close>

lemma split_no_sep: "c \<notin> set s \<Longrightarrow> split c s = [s]"
  by (induction s) auto

lemma split_key_value:
  "c \<notin> set k \<Longrightarrow> c \<notin> set v \<Longrightarrow> split c (k @ c # v) = [k, v]"
  by (induction k) (auto simp: split_no_sep)

lemma set_prop_new: "k \<notin> fst ` set obj \<Longrightarrow> set_prop k v obj = obj @ [(k, v)]"
  by (induction obj) auto

lemma fromEntries_roundtrip:
  "distinct (map fst (acc @ obj)) \<Longrightarrow> eq_free obj \<Longrightarrow> all_strings obj \<Longrightarrow>
   fromEntries (map (split CHR ''='') (objToSerializedEntries obj)) acc = acc @ obj"
proof (induction obj arbitrary: acc)
  case Nil
  then show ?case by (simp add: objToSerializedEntries_def)
next
  case (Cons kv obj)
  obtain k v where kv: "kv = (k, v)" by (cases kv)
  from Cons.prems(3) kv obtain s where v: "v = JStr s"
    by (cases v) (auto simp: all_strings_def)
  from Cons.prems(2) kv v have free: "CHR ''='' \<notin> set k" "CHR ''='' \<notin> set s"
    by (auto simp: eq_free_def)
  from Cons.prems(1) kv have fresh: "k \<notin> fst ` set acc"
    by auto
  have step: "entry_of (split CHR ''='' (join ''='' [JStr k, v])) = (k, v)"
    using free by (simp add: v split_key_value)
  have rest: "fromEntries (map (split CHR ''='') (objToSerializedEntries obj)) (acc @ [kv]) =
      (acc @ [kv]) @ obj"
  proof (rule Cons.IH)
    show "distinct (map fst ((acc @ [kv]) @ obj))" using Cons.prems(1) by simp
    show "eq_free obj" using Cons.prems(2) by (simp add: eq_free_def)
    show "all_strings obj" using Cons.prems(3) by (simp add: all_strings_def)
  qed
  have "fromEntries (map (split CHR ''='') (objToSerializedEntries (kv # obj))) acc =
      fromEntries (map (split CHR ''='') (objToSerializedEntries obj)) (set_prop k v acc)"
    using step by (simp add: objToSerializedEntries_def kv)
  also have "\<dots> = (acc @ [kv]) @ obj"
    using rest by (simp add: set_prop_new [OF fresh] kv)
  finally show ?case by simp
qed

text \<open>
  C9 (amended). For a flat object all of whose values are strings, with no \<^verbatim>\<open>=\<close> in
  any key or value, \<open>serializedEntriesToObj (objToSerializedEntries obj)\<close> is \<open>obj\<close>,
  property for property and in the same order.
\<close>

theorem serialized_entries_roundtrip:
  assumes "distinct (map fst obj)" and "eq_free obj" and "all_strings obj"
  shows "serializedEntriesToObj (objToSerializedEntries obj) = obj"
  using fromEntries_roundtrip [of "[]" obj] assms
  by (simp add: serializedEntriesToObj_def)

theorem serialized_entries_roundtrip_witness:
  "serializedEntriesToObj (objToSerializedEntries [(''foo'', JStr ''FOO''), (''bar'', JStr ''BAR'')])
     = [(''foo'', JStr ''FOO''), (''bar'', JStr ''BAR'')]"
proof -
  have "distinct (map fst [(''foo'', JStr ''FOO''), (''bar'', JStr ''BAR'')])"
    by simp
  moreover have "eq_free [(''foo'', JStr ''FOO''), (''bar'', JStr ''BAR'')]"
    by (simp add: eq_free_def)
  moreover have "all_strings [(''foo'', JStr ''FOO''), (''bar'', JStr ''BAR'')]"
    by (simp add: all_strings_def)
  ultimately show ?thesis
    by (rule serialized_entries_roundtrip)
qed

text \<open>
  C9 as stated fails on an object with a value that is not a string: the object
  \<^verbatim>\<open>{foo: 123}\<close> has no \<^verbatim>\<open>=\<close> in its key and no string value at all, and comes
  back as \<^verbatim>\<open>{foo: "123"}\<close>.
\<close>

theorem serialized_entries_number_counterexample:
  "distinct (map fst [(''foo'', JNum 123)]) \<and> eq_free [(''foo'', JNum 123)] \<and>
   serializedEntriesToObj (objToSerializedEntries [(''foo'', JNum 123)]) = [(''foo'', JStr ''123'')] \<and>
   serializedEntriesToObj (objToSerializedEntries [(''foo'', JNum 123)]) \<noteq> [(''foo'', JNum 123)]"
proof -
  have d: "digits 123 = ''123''"
    by (simp add: digits.simps [of 123] digits.simps [of 12] digits.simps [of 1]
        digits.simps [of "Suc 0"])
  show ?thesis
    by (simp add: eq_free_def serializedEntriesToObj_def objToSerializedEntries_def d)
qed

text \<open>
  In general every value comes back as the string that \<^verbatim>\<open>join\<close> made of it,
  as long as that string and the key hold no \<^verbatim>\<open>=\<close>.
\<close>

lemma fromEntries_stringifies:
  "distinct (map fst (acc @ obj)) \<Longrightarrow>
   list_all (\<lambda>(k, v). CHR ''='' \<notin> set k \<and> CHR ''='' \<notin> set (join_elem v)) obj \<Longrightarrow>
   fromEntries (map (split CHR ''='') (objToSerializedEntries obj)) acc =
     acc @ map (\<lambda>(k, v). (k, JStr (join_elem v))) obj"
proof (induction obj arbitrary: acc)
  case Nil
  then show ?case by (simp add: objToSerializedEntries_def)
next
  case (Cons kv obj)
  obtain k v where kv: "kv = (k, v)" by (cases kv)
  from Cons.prems(2) kv have free: "CHR ''='' \<notin> set k" "CHR ''='' \<notin> set (join_elem v)"
    by auto
  from Cons.prems(1) kv have fresh: "k \<notin> fst ` set acc"
    by auto
  have step: "entry_of (split CHR ''='' (join ''='' [JStr k, v])) = (k, JStr (join_elem v))"
    using free by (simp add: split_key_value)
  have rest: "fromEntries (map (split CHR ''='') (objToSerializedEntries obj))
        (acc @ [(k, JStr (join_elem v))]) =
      (acc @ [(k, JStr (join_elem v))]) @ map (\<lambda>(k, v). (k, JStr (join_elem v))) obj"
  proof (rule Cons.IH)
    show "distinct (map fst ((acc @ [(k, JStr (join_elem v))]) @ obj))"
      using Cons.prems(1) kv by simp
    show "list_all (\<lambda>(k, v). CHR ''='' \<notin> set k \<and> CHR ''='' \<notin> set (join_elem v)) obj"
      using Cons.prems(2) by simp
  qed
  have "fromEntries (map (split CHR ''='') (objToSerializedEntries (kv # obj))) acc =
      fromEntries (map (split CHR ''='') (objToSerializedEntries obj))
        (set_prop k (JStr (join_elem v)) acc)"
    using step by (simp add: objToSerializedEntries_def kv)
  also have "\<dots> = (acc @ [(k, JStr (join_elem v))]) @ map (\<lambda>(k, v). (k, JStr (join_elem v))) obj"
    using rest by (simp add: set_prop_new [OF fresh])
  finally show ?case by (simp add: kv)
qed

lemma serialized_entries_stringify:
  assumes "distinct (map fst obj)"
    and "list_all (\<lambda>(k, v). CHR ''='' \<notin> set k \<and> CHR ''='' \<notin> set (join_elem v)) obj"
  shows "serializedEntriesToObj (objToSerializedEntries obj) =
           map (\<lambda>(k, v). (k, JStr (join_elem v))) obj"
  using fromEntries_stringifies [of "[]" obj] assms
  by (simp add: serializedEntriesToObj_def)

section \<open>Properties of waitFor\<close>

lemma race_Never [simp]: "race p Never = p"
  by (cases p) (simp_all add: race_def)

text \<open>
  With a number of milliseconds and an error as fallback, \<open>waitFor\<close> settles as the
  primary promise when that settles within the allowance, and is rejected with the
  fallback when the allowance has run out.
\<close>

lemma waitFor_Millis_FallbackErr:
  "waitFor p (Millis T) (FallbackErr e) = (if settled_by p T then p else Rejects T e)"
  by (cases p) (auto simp: waitFor_def fallbackPromise_def action_time_def race_def)

lemma waitFor_resolves:
  "t \<le> T \<Longrightarrow> waitFor (Resolves t v) (Millis T) (FallbackErr e) = Resolves t v"
  by (simp add: waitFor_Millis_FallbackErr)

lemma waitFor_expires:
  "\<not> settled_by p T \<Longrightarrow> waitFor p (Millis T) (FallbackErr e) = Rejects T e"
  by (simp add: waitFor_Millis_FallbackErr)

section \<open>Properties of the Device\<close>

lemma dev_emit [simp]: "dev (emit e w) = dev w"
  by (simp add: emit_def)

lemma trace_emit [simp]: "trace (emit e w) = trace w @ [e]"
  by (simp add: emit_def)

lemma workspaceState_emit [simp]: "workspaceState (emit e w) = workspaceState w"
  by (simp add: emit_def)

lemma promises_emit [simp]: "promises (emit e w) = promises w"
  by (simp add: emit_def)

lemma dev_upd [simp]: "dev (upd f w) = f (dev w)"
  by (simp add: upd_def)

lemma trace_upd [simp]: "trace (upd f w) = trace w"
  by (simp add: upd_def)

lemma workspaceState_upd [simp]: "workspaceState (upd f w) = workspaceState w"
  by (simp add: upd_def)

lemma promises_upd [simp]: "promises (upd f w) = promises w"
  by (simp add: upd_def)

lemma dev_connect_catch [simp]: "dev (connect_catch err w) = dev w"
  by (simp add: connect_catch_def)

lemma workspaceState_connect_catch [simp]:
  "workspaceState (connect_catch err w) = workspaceState w"
  by (simp add: connect_catch_def)

text \<open>
  \<open>changed()\<close> leaves the device's fields alone, writes the saved record and adds
  four entries to the trace.
\<close>

lemma dev_changed [simp]: "dev (changed w) = dev w"
  by (simp add: changed_def onChanged_def saveState_def handleState_def)

lemma promises_changed [simp]: "promises (changed w) = promises w"
  by (simp add: changed_def onChanged_def saveState_def handleState_def)

lemma trace_changed [simp]:
  "trace (changed w) =
     trace w @ [Changed, LogDebug ''handleState'', RefreshDevices, RefreshProjects]"
  by (simp add: changed_def onChanged_def saveState_def handleState_def emit_def)

lemma workspaceState_changed [simp]:
  "workspaceState (changed w) =
     Some \<lparr>saved_connected = connected (dev w), saved_name = name (dev w)\<rparr>"
  by (simp add: changed_def onChanged_def saveState_def handleState_def emit_def)

text \<open>
  When \<open>connect()\<close> returns, \<^verbatim>\<open>connecting\<close> is false again, whether or not the
  attempt it started has settled: the flag is only set while the executor runs its
  first, synchronous part.
\<close>

lemma connect_start_resets_connecting:
  "\<not> connecting (dev w) \<Longrightarrow> \<not> connecting (dev (fst (connect_start w)))"
  by (simp add: connect_start_def Let_def)

lemma connect_start_fields:
  assumes "\<not> connecting (dev w)"
  shows "connected (dev (fst (connect_start w))) = connected (dev w)"
    and "lostConnection (dev (fst (connect_start w))) = lostConnection (dev w)"
    and "protocol (dev (fst (connect_start w))) = protocol (dev w)"
    and "address (dev (fst (connect_start w))) = address (dev w)"
  using assms by (simp_all add: connect_start_def Let_def)

lemma connect_start_serial:
  assumes "\<not> connecting (dev w)" and "protocol (dev w) = Serial"
  shows "connect_start w =
    (w\<lparr>dev := (dev w)\<lparr>connecting := False, connectingPromise := Some (promises w)\<rparr>,
       promises := Suc (promises w),
       trace := trace w @ [CallConnect, LogInfo ''connecting...'', ConnectSerial (address (dev w))]\<rparr>,
     Some (promises w))"
  using assms by (simp add: connect_start_def Let_def emit_def upd_def)

text \<open>
  C1 (the code at the failing input). Two calls of \<open>connect()\<close> in a row on a serial
  device, the second while the first attempt has not settled: each call creates a
  promise of its own and calls \<^verbatim>\<open>adapter.connectSerial\<close>, and \<^verbatim>\<open>connecting\<close> is
  false between the two calls.
\<close>

theorem connect_twice_starts_two_attempts:
  "(case connect_start world0 of
      (w1, p1) \<Rightarrow>
        (case connect_start w1 of
           (w2, p2) \<Rightarrow> (p1, connecting (dev w1), p2, count_effect (ConnectSerial ''COM3'') w2)))
   = (Some 0, False, Some 1, 2)"
  by (simp add: connect_start_def Let_def world0_def device0_def count_effect_def)

text \<open>
  C4 (amended). On a serial device, when \<^verbatim>\<open>adapter.connectSerial\<close> has not settled
  within 2000 ms, \<open>connect()\<close> is rejected at 2000 ms, not earlier, with the string
  \<^verbatim>\<open>"Timed out while connecting."\<close>, an error message is shown, and the attempt
  leaves \<^verbatim>\<open>connected\<close>, \<^verbatim>\<open>lostConnection\<close> and the saved record as they were: a
  device that was not connected is still not connected.
\<close>

theorem connect_times_out:
  assumes "protocol (dev w) = Serial" and "\<not> connecting (dev w)"
    and "\<not> settled_by (connectSerial_p a) 2000"
  shows "\<exists>w'. connect a w = Some (w', Rejects 2000 (StrVal ''Timed out while connecting.'')) \<and>
              connected (dev w') = connected (dev w) \<and>
              lostConnection (dev w') = lostConnection (dev w) \<and>
              workspaceState w' = workspaceState w \<and>
              ShowErrorMessage
                (connect_error_text (address (dev w)) (StrVal ''Timed out while connecting.''))
                \<in> set (trace w')"
proof -
  let ?w1 = "fst (connect_start w)"
  have serial: "protocol (dev ?w1) = Serial"
    using assms(1,2) by (simp add: connect_start_fields)
  have saved: "workspaceState ?w1 = workspaceState w"
    by (simp add: connect_start_def Let_def)
  have "connect_settle a ?w1 =
      (connect_catch (StrVal ''Timed out while connecting.'') ?w1,
       Rejects 2000 (StrVal ''Timed out while connecting.''))"
    using serial assms(3) by (simp add: connect_settle_def waitFor_expires)
  then show ?thesis
    using assms(2) saved
    by (simp add: connect_def connect_start_fields connect_catch_def)
qed

theorem connect_times_out_witness:
  "map_option snd (connect answers_hang world0) =
     Some (Rejects 2000 (StrVal ''Timed out while connecting.'')) \<and>
   map_option (\<lambda>r. connected (dev (fst r))) (connect answers_hang world0) = Some False \<and>
   map_option (\<lambda>r. lostConnection (dev (fst r))) (connect answers_hang world0) = Some False"
proof -
  have "protocol (dev world0) = Serial" and "\<not> connecting (dev world0)"
    and "\<not> settled_by (connectSerial_p answers_hang) 2000"
    by (simp_all add: world0_def device0_def answers_hang_def)
  from connect_times_out [OF this] show ?thesis
    by (auto simp: world0_def device0_def)
qed

text \<open>
  C4 as stated fails on a device that is not in the disconnected state when
  \<open>connect()\<close> is called. A device that has lost its connection keeps
  \<^verbatim>\<open>lostConnection\<close> set after the time-out, and a device that is connected stays
  marked connected.
\<close>

theorem connect_timeout_keeps_flags:
  "map_option snd (connect answers_hang world_lost) =
     Some (Rejects 2000 (StrVal ''Timed out while connecting.'')) \<and>
   map_option (\<lambda>r. lostConnection (dev (fst r))) (connect answers_hang world_lost) = Some True \<and>
   map_option snd (connect answers_hang world_connected) =
     Some (Rejects 2000 (StrVal ''Timed out while connecting.'')) \<and>
   map_option (\<lambda>r. connected (dev (fst r))) (connect answers_hang world_connected) = Some True"
  by (simp add: connect_def connect_settle_def connect_start_def waitFor_expires Let_def
        answers_hang_def world_lost_def world_connected_def world0_def device0_def)

lemma connect_settle_connected:
  assumes "protocol (dev w) = Serial" and "connectSerial_p a = Resolves t u" and "t \<le> 2000"
  shows "connected (dev (fst (connect_settle a w)))"
    and "\<not> lostConnection (dev (fst (connect_settle a w)))"
    and "GetBoardInfo \<in> set (trace (fst (connect_settle a w)))"
    and "workspaceState (fst (connect_settle a w)) =
           Some \<lparr>saved_connected = True, saved_name = name (dev w)\<rparr>"
  using assms
  by (simp_all add: connect_settle_def waitFor_resolves Let_def connect_catch_def
        split: promise.splits)

lemma connect_settle_info_expires:
  assumes "protocol (dev w) = Serial" and "connectSerial_p a = Resolves t u" and "t \<le> 2000"
    and "\<not> settled_by (getBoardInfo_p a) 10000"
  shows "snd (connect_settle a w) =
           Rejects (t + 10000) (StrVal ''timed out while getting board info'')"
    and "ShowErrorMessage
           (connect_error_text (address (dev w)) (StrVal ''timed out while getting board info''))
         \<in> set (trace (fst (connect_settle a w)))"
  using assms
  by (simp_all add: connect_settle_def waitFor_resolves waitFor_expires Let_def connect_catch_def)

lemma connect_settle_info_rejected:
  assumes "protocol (dev w) = Serial" and "connectSerial_p a = Resolves t u" and "t \<le> 2000"
    and "getBoardInfo_p a = Rejects t' e" and "t' \<le> 10000"
  shows "snd (connect_settle a w) = Rejects (t + t') e"
    and "ShowErrorMessage (connect_error_text (address (dev w)) e)
         \<in> set (trace (fst (connect_settle a w)))"
  using assms
  by (simp_all add: connect_settle_def waitFor_resolves waitFor_Millis_FallbackErr Let_def
        connect_catch_def)

lemma connect_settle_info_resolved:
  assumes "protocol (dev w) = Serial" and "connectSerial_p a = Resolves t u" and "t \<le> 2000"
    and "getBoardInfo_p a = Resolves t' i" and "t' \<le> 10000"
    and "setToLastUsedOrFirstFound_p a = Resolves t'' u'"
  shows "snd (connect_settle a w) = Resolves (t + t' + t'') ()"
    and "info (dev (fst (connect_settle a w))) = Some i"
  using assms
  by (simp_all add: connect_settle_def waitFor_resolves Let_def)

text \<open>
  C2 (amended). On a serial device whose \<^verbatim>\<open>adapter.connectSerial\<close> is fulfilled within
  2000 ms, \<open>connect()\<close> sets \<^verbatim>\<open>connected\<close>, clears \<^verbatim>\<open>lostConnection\<close>, announces
  the change (which saves \<^verbatim>\<open>connected\<close> true) and asks for the board information
  under an allowance of 10000 ms. When that request is rejected
  or has not settled within the allowance, \<open>connect()\<close> is rejected, with the
  request's reason or with the string \<^verbatim>\<open>"timed out while getting board info"\<close>, an
  error message is shown, and the device stays connected. When the request and the active-device store are
  fulfilled, \<open>connect()\<close> is fulfilled and \<^verbatim>\<open>info\<close> holds the answer.
\<close>

theorem connect_success_then_board_info:
  assumes "protocol (dev w) = Serial" and "\<not> connecting (dev w)"
    and "connectSerial_p a = Resolves t u" and "t \<le> 2000"
  shows "\<exists>w' r. connect a w = Some (w', r) \<and>
           connected (dev w') \<and> \<not> lostConnection (dev w') \<and>
           GetBoardInfo \<in> set (trace w') \<and>
           workspaceState w' = Some \<lparr>saved_connected = True, saved_name = name (dev w)\<rparr> \<and>
           (\<not> settled_by (getBoardInfo_p a) 10000 \<longrightarrow>
              r = Rejects (t + 10000) (StrVal ''timed out while getting board info'') \<and>
              ShowErrorMessage
                (connect_error_text (address (dev w))
                   (StrVal ''timed out while getting board info'')) \<in> set (trace w')) \<and>
           (\<forall>t' e. getBoardInfo_p a = Rejects t' e \<and> t' \<le> 10000 \<longrightarrow>
              r = Rejects (t + t') e \<and>
              ShowErrorMessage (connect_error_text (address (dev w)) e) \<in> set (trace w')) \<and>
           (\<forall>t' i t'' u'. getBoardInfo_p a = Resolves t' i \<and> t' \<le> 10000 \<and>
                setToLastUsedOrFirstFound_p a = Resolves t'' u' \<longrightarrow>
              r = Resolves (t + t' + t'') () \<and> info (dev w') = Some i)"
proof -
  let ?w1 = "fst (connect_start w)"
  have serial: "protocol (dev ?w1) = Serial" and addr: "address (dev ?w1) = address (dev w)"
    and nm: "name (dev ?w1) = name (dev w)"
    using assms(1,2) by (simp_all add: connect_start_fields connect_start_def Let_def)
  have run: "connect a w = Some (fst (connect_settle a ?w1), snd (connect_settle a ?w1))"
    using assms(2) by (simp add: connect_def)
  note facts = serial assms(3,4)
  show ?thesis
    using run connect_settle_connected [OF facts]
      connect_settle_info_expires [OF facts]
      connect_settle_info_rejected [OF facts]
      connect_settle_info_resolved [OF facts]
    unfolding addr nm by blast
qed

theorem connect_success_then_board_info_witness:
  "map_option snd (connect answers_info_hangs world0) =
     Some (Rejects 10010 (StrVal ''timed out while getting board info'')) \<and>
   map_option (\<lambda>r. connected (dev (fst r))) (connect answers_info_hangs world0) = Some True \<and>
   map_option snd (connect answers_ok world0) = Some (Resolves 15 ()) \<and>
   map_option (\<lambda>r. info (dev (fst r))) (connect answers_ok world0) = Some (Some ''esp32'')"
proof -
  have w: "protocol (dev world0) = Serial" "\<not> connecting (dev world0)"
    by (simp_all add: world0_def device0_def)
  have a: "connectSerial_p answers_info_hangs = Resolves 10 ()" "(10::nat) \<le> 2000"
    "\<not> settled_by (getBoardInfo_p answers_info_hangs) 10000"
    by (simp_all add: answers_info_hangs_def)
  have b: "connectSerial_p answers_ok = Resolves 10 ()"
    "getBoardInfo_p answers_ok = Resolves 5 ''esp32''" "(5::nat) \<le> 10000"
    "setToLastUsedOrFirstFound_p answers_ok = Resolves 0 ()"
    by (simp_all add: answers_ok_def)
  from connect_success_then_board_info [OF w a(1,2)] a(3)
  have 1: "map_option snd (connect answers_info_hangs world0) =
       Some (Rejects 10010 (StrVal ''timed out while getting board info''))"
    and 2: "map_option (\<lambda>r. connected (dev (fst r))) (connect answers_info_hangs world0) = Some True"
    by auto
  from connect_success_then_board_info [OF w b(1) a(2)] b(2,3,4)
  have 3: "map_option snd (connect answers_ok world0) = Some (Resolves 15 ())"
    and 4: "map_option (\<lambda>r. info (dev (fst r))) (connect answers_ok world0) = Some (Some ''esp32'')"
    by auto
  from 1 2 3 4 show ?thesis by simp
qed

text \<open>
  C2 as stated fails when the board information cannot be had: the adapter connects
  after 10 ms and rejects \<^verbatim>\<open>getBoardInfo\<close> 5 ms later; \<open>connect()\<close> is rejected with
  that reason, while the device is connected.
\<close>

theorem connect_rejects_when_board_info_fails:
  "map_option snd (connect answers_info_fails world0) =
     Some (Rejects 15 (ErrorObj ''Error'' ''no reply'')) \<and>
   map_option (\<lambda>r. connected (dev (fst r))) (connect answers_info_fails world0) = Some True"
  by (simp add: connect_def connect_settle_def connect_start_def waitFor_Millis_FallbackErr
        Let_def answers_info_fails_def world0_def device0_def)

lemma dev_disconnect_resolved:
  "t \<le> 2000 \<Longrightarrow>
   disconnect (Resolves t u) w =
     (changed (upd (\<lambda>d. d\<lparr>lostConnection := False\<rparr>)
        (upd (\<lambda>d. d\<lparr>connected := False\<rparr>) (emit Disconnect w))), Resolves t ())"
  by (simp add: disconnect_def waitFor_resolves Let_def)

text \<open>
  C3 (amended). \<open>disconnect()\<close> calls \<^verbatim>\<open>adapter.disconnect\<close> under an allowance of
  2000 ms. When that call settles within the allowance, \<open>disconnect()\<close> settles as
  it does: fulfilled, or rejected at the same time with the adapter's own reason.
  When the call has not settled within the allowance, \<open>disconnect()\<close> is rejected
  at 2000 ms with the string \<^verbatim>\<open>"Timed out while disconnecting."\<close>. Only when the
  call is fulfilled within the allowance does the device end disconnected:
  \<^verbatim>\<open>connected\<close> and \<^verbatim>\<open>lostConnection\<close> are false, the change is announced and
  the saved record has \<^verbatim>\<open>connected\<close> false. In every other case the device's
  fields and the saved record are left as they were and nothing is announced.
\<close>

theorem disconnect_outcomes:
  "(settled_by p 2000 \<longrightarrow> snd (disconnect p w) = p) \<and>
   (\<not> settled_by p 2000 \<longrightarrow>
      snd (disconnect p w) = Rejects 2000 (StrVal ''Timed out while disconnecting.'')) \<and>
   (resolved_by p 2000 \<longrightarrow>
      \<not> connected (dev (fst (disconnect p w))) \<and>
      \<not> lostConnection (dev (fst (disconnect p w))) \<and>
      workspaceState (fst (disconnect p w)) =
        Some \<lparr>saved_connected = False, saved_name = name (dev w)\<rparr> \<and>
      trace (fst (disconnect p w)) =
        trace w @ [Disconnect, Changed, LogDebug ''handleState'', RefreshDevices,
                   RefreshProjects]) \<and>
   (\<not> resolved_by p 2000 \<longrightarrow>
      dev (fst (disconnect p w)) = dev w \<and>
      workspaceState (fst (disconnect p w)) = workspaceState w \<and>
      trace (fst (disconnect p w)) = trace w @ [Disconnect])"
proof (cases p)
  case (Resolves t u)
  then show ?thesis
    by (cases "t \<le> 2000")
      (simp_all add: dev_disconnect_resolved, simp add: disconnect_def waitFor_expires)
next
  case (Rejects t err)
  then show ?thesis
    by (simp add: disconnect_def waitFor_Millis_FallbackErr)
next
  case Never
  then show ?thesis
    by (simp add: disconnect_def waitFor_expires)
qed

theorem disconnect_outcomes_witness:
  "snd (disconnect (Resolves 30 ()) world_connected) = Resolves 30 () \<and>
   connected (dev (fst (disconnect (Resolves 30 ()) world_connected))) = False \<and>
   workspaceState (fst (disconnect (Resolves 30 ()) world_connected)) =
     Some \<lparr>saved_connected = False, saved_name = ''board''\<rparr> \<and>
   snd (disconnect (Rejects 30 (ErrorObj ''Error'' ''port busy'')) world_connected) =
     Rejects 30 (ErrorObj ''Error'' ''port busy'') \<and>
   dev (fst (disconnect (Rejects 30 (ErrorObj ''Error'' ''port busy'')) world_connected)) =
     dev world_connected \<and>
   snd (disconnect (Resolves 2500 ()) world_connected) =
     Rejects 2000 (StrVal ''Timed out while disconnecting.'') \<and>
   connected (dev (fst (disconnect (Resolves 2500 ()) world_connected))) = True"
proof -
  have "settled_by (Resolves 30 ()) 2000" and "resolved_by (Resolves 30 ()) 2000"
    and "settled_by (Rejects 30 (ErrorObj ''Error'' ''port busy'')) 2000"
    and "\<not> resolved_by (Rejects 30 (ErrorObj ''Error'' ''port busy'')) 2000"
    and "\<not> settled_by (Resolves 2500 ()) 2000" and "\<not> resolved_by (Resolves 2500 ()) 2000"
    by simp_all
  with disconnect_outcomes [of "Resolves 30 ()" world_connected]
    disconnect_outcomes [of "Rejects 30 (ErrorObj ''Error'' ''port busy'')" world_connected]
    disconnect_outcomes [of "Resolves 2500 ()" world_connected]
  show ?thesis
    by (simp add: world_connected_def world0_def device0_def)
qed

text \<open>
  C3 as stated fails when the adapter does not answer: \<open>disconnect()\<close> is rejected
  after 2000 ms and the device is still marked connected.
\<close>

theorem disconnect_timeout_stays_connected:
  "snd (disconnect Never world_connected) =
     Rejects 2000 (StrVal ''Timed out while disconnecting.'') \<and>
   connected (dev (fst (disconnect Never world_connected))) = True"
  by (simp add: disconnect_def waitFor_expires world_connected_def world0_def device0_def)

lemma count_effect_emit:
  "count_effect e (emit e' w) = count_effect e w + (if e' = e then 1 else 0)"
  by (simp add: count_effect_def)

lemma count_effect_upd [simp]: "count_effect e (upd f w) = count_effect e w"
  by (simp add: count_effect_def)

lemma count_CallConnect_connect_start:
  "count_effect CallConnect (fst (connect_start w)) = Suc (count_effect CallConnect w)"
  by (simp add: connect_start_def Let_def count_effect_def)

lemma loadState_result:
  "loadState w = (workspaceState w, emit (LogDebug ''handleState'') w)"
  by (simp add: loadState_def handleState_def)

text \<open>
  C8. On a device that is online and not connected, with \<^verbatim>\<open>autoConnect\<close> resolving to
  \<^verbatim>\<open>"lastState"\<close> (set on the device, or set for the extension with nothing on the
  device), \<open>updateConnection()\<close> calls \<open>connect()\<close> once when the saved state has
  \<^verbatim>\<open>connected\<close> true, and does not call it when the saved state has it false or when
  nothing is saved.
\<close>

theorem updateConnection_lastState:
  assumes "online (dev w)" and "\<not> connected (dev w)"
    and "js_or (device_autoConnect cfg) (global_autoConnect cfg) = Some ''lastState''"
  shows "count_effect CallConnect (fst (updateConnection cfg w)) =
           count_effect CallConnect w +
             (if state_connected (workspaceState w) then 1 else 0)"
  using assms
  by (simp add: updateConnection_def Let_def loadState_result
        count_CallConnect_connect_start count_effect_emit)

theorem updateConnection_lastState_witness:
  "count_effect CallConnect (fst (updateConnection settings_lastState (world_online True))) = 1 \<and>
   count_effect CallConnect (fst (updateConnection settings_lastState (world_online False))) = 0 \<and>
   count_effect CallConnect (fst (updateConnection settings_lastState (upd (\<lambda>d. d\<lparr>online := True\<rparr>) world0))) = 0"
proof -
  have cfg: "js_or (device_autoConnect settings_lastState) (global_autoConnect settings_lastState)
      = Some ''lastState''"
    by (simp add: settings_lastState_def js_or_def)
  have on: "online (dev (world_online b))" "\<not> connected (dev (world_online b))" for b
    by (simp_all add: world_online_def world0_def device0_def)
  have on0: "online (dev (upd (\<lambda>d. d\<lparr>online := True\<rparr>) world0))"
    "\<not> connected (dev (upd (\<lambda>d. d\<lparr>online := True\<rparr>) world0))"
    by (simp_all add: world0_def device0_def)
  show ?thesis
    using updateConnection_lastState [OF on cfg, of True]
      updateConnection_lastState [OF on cfg, of False]
      updateConnection_lastState [OF on0 cfg]
    by (simp add: world_online_def world0_def state_connected_def count_effect_def upd_def)
qed

section \<open>Properties of upload\<close>

text \<open>
  C5. In \<open>_uploadFile\<close>, when \<^verbatim>\<open>adapter.mkdir\<close> is rejected with an error whose
  message contains \<^verbatim>\<open>OSError: [Errno 17] EEXIST\<close>, the error is dropped and
  \<^verbatim>\<open>putFile\<close> is called, its outcome being the method's; when the message does not
  contain it, the method is rejected with the same error and \<^verbatim>\<open>putFile\<close> is not
  called.
\<close>

theorem uploadFile_mkdir_tolerance:
  assumes "adapter h cs (Mkdir (dirname h (flash_path destination))) = Failed err"
    and "message err = Some m"
  shows "priv_uploadFile h (Inr data) destination cs =
     (if contains eexist m
      then (adapter h (cs @ [Mkdir (dirname h (flash_path destination))])
              (PutFile (flash_path destination) data),
            cs @ [Mkdir (dirname h (flash_path destination)),
                  PutFile (flash_path destination) data])
      else (Failed err, cs @ [Mkdir (dirname h (flash_path destination))]))"
  using assms by (simp add: priv_uploadFile_def Let_def)

text \<open>
  A rejection of \<^verbatim>\<open>adapter.mkdir\<close> with a value that has no \<^verbatim>\<open>message\<close> also ends
  the method before \<^verbatim>\<open>putFile\<close>, with the \<^verbatim>\<open>TypeError\<close> of the failed test.
\<close>

lemma uploadFile_mkdir_error_without_message:
  assumes "adapter h cs (Mkdir (dirname h (flash_path destination))) = Failed err"
    and "message err = None"
  shows "priv_uploadFile h (Inr data) destination cs =
           (Failed match_of_undefined, cs @ [Mkdir (dirname h (flash_path destination))])"
  using assms by (simp add: priv_uploadFile_def Let_def)

theorem uploadFile_mkdir_tolerance_witness:
  "priv_uploadFile host_exists (Inr ''print(1)'') ''main.py'' [] =
     (Done (), [Mkdir ''/flash'', PutFile ''/flash/main.py'' ''print(1)'']) \<and>
   priv_uploadFile host_denied (Inr ''print(1)'') ''main.py'' [] =
     (Failed (ErrorObj ''Error'' ''OSError: [Errno 13] EACCES''), [Mkdir ''/flash''])"
proof -
  have p: "flash_path ''main.py'' = ''/flash/main.py''"
    by (simp add: flash_path_def)
  have a: "adapter host_exists [] (Mkdir (dirname host_exists (flash_path ''main.py''))) =
      Failed (ErrorObj ''Error'' ''mkdir failed: OSError: [Errno 17] EEXIST'')"
    by (simp add: host_exists_def)
  have b: "adapter host_denied [] (Mkdir (dirname host_denied (flash_path ''main.py''))) =
      Failed (ErrorObj ''Error'' ''OSError: [Errno 13] EACCES'')"
    by (simp add: host_denied_def)
  have 1: "priv_uploadFile host_exists (Inr ''print(1)'') ''main.py'' [] =
     (Done (), [Mkdir ''/flash'', PutFile ''/flash/main.py'' ''print(1)''])"
    using uploadFile_mkdir_tolerance [OF a, of _ "''print(1)''"]
    by (simp add: p host_exists_def eexist_def)
  have 2: "priv_uploadFile host_denied (Inr ''print(1)'') ''main.py'' [] =
     (Failed (ErrorObj ''Error'' ''OSError: [Errno 13] EACCES''), [Mkdir ''/flash''])"
    using uploadFile_mkdir_tolerance [OF b, of _ "''print(1)''"]
    by (simp add: p host_denied_def eexist_def)
  from 1 2 show ?thesis by simp
qed

text \<open>
  C6 (amended). \<open>upload\<close> is never rejected. When the transfer below it is rejected
  with an error, \<open>upload\<close> catches the error, shows it in an error message, logs it,
  and is fulfilled.
\<close>

theorem upload_never_rejects:
  "fst (upload h tree source destination cs) \<noteq> Failed err' \<and>
   (fst (priv_upload h tree destination cs) = Failed err \<longrightarrow>
      fst (upload h tree source destination cs) = Done () \<and>
      ShowErrorMessage (upload_error_text source destination err)
        \<in> set (snd (snd (upload h tree source destination cs))) \<and>
      (\<exists>l. LogError l \<in> set (snd (snd (upload h tree source destination cs)))))"
  by (simp add: upload_def Let_def split: prod.splits outcome.splits)

theorem upload_never_rejects_witness:
  "fst (upload host_denied (Dir [(''main.py'', File ''print(1)'')]) ''/work'' ''/'' []) = Done () \<and>
   ShowErrorMessage
     (upload_error_text ''/work'' ''/'' (ErrorObj ''Error'' ''OSError: [Errno 13] EACCES''))
     \<in> set (snd (snd (upload host_denied (Dir [(''main.py'', File ''print(1)'')])
                        ''/work'' ''/'' [])))"
proof -
  have "fst (priv_upload host_denied (Dir [(''main.py'', File ''print(1)'')]) ''/'' []) =
      Failed (ErrorObj ''Error'' ''OSError: [Errno 13] EACCES'')"
    by (simp add: priv_uploadFile_def Let_def host_denied_def eexist_def)
  with upload_never_rejects
    [of host_denied "Dir [(''main.py'', File ''print(1)'')]" "''/work''" "''/''" "[]" _
      "ErrorObj ''Error'' ''OSError: [Errno 13] EACCES''"]
  show ?thesis by simp
qed

text \<open>
  C6 as stated fails: on a board that refuses to create the directory, the transfer
  of a file is rejected with the board's error, and \<open>upload\<close> is fulfilled.
\<close>

theorem upload_resolves_on_transfer_error:
  "fst (priv_upload host_denied (File ''print(1)'') ''main.py'' []) =
     Failed (ErrorObj ''Error'' ''OSError: [Errno 13] EACCES'') \<and>
   fst (upload host_denied (File ''print(1)'') ''/work/main.py'' ''main.py'' []) = Done ()"
  by (simp add: upload_def priv_uploadFile_def Let_def host_denied_def eexist_def)

section \<open>Properties of downloadProject\<close>







lemma fetch_files_events:
  "\<exists>more. fst (snd (fetch_files env files ps evs)) = evs @ more \<and>
          list_all (\<lambda>e. \<not> is_mkdir e) more"
proof (induction files arbitrary: ps evs)
  case Nil
  then show ?case by simp
next
  case (Cons fl files)
  show ?case
  proof (cases "getFile_res env evs (filename (fst fl))")
    case (Done contents)
    from Cons.IH [of "ps @ [writeFile_res env (evs @ [GetFile (filename (fst fl))]) (snd fl) contents]"
        "evs @ [GetFile (filename (fst fl))] @ [WriteFile (snd fl) contents]"]
    obtain more where
      "fst (snd (fetch_files env files
          (ps @ [writeFile_res env (evs @ [GetFile (filename (fst fl))]) (snd fl) contents])
          (evs @ [GetFile (filename (fst fl))] @ [WriteFile (snd fl) contents]))) =
        (evs @ [GetFile (filename (fst fl))] @ [WriteFile (snd fl) contents]) @ more"
      and "list_all (\<lambda>e. \<not> is_mkdir e) more"
      by blast
    then show ?thesis
      using Done
      by (intro exI [of _ "[GetFile (filename (fst fl)), WriteFile (snd fl) contents] @ more"])
        (simp add: Let_def)
  next
    case (Failed err)
    then show ?thesis by (simp add: Let_def)
  next
    case Hangs
    then show ?thesis by (simp add: Let_def)
  qed
qed



















end
